theory Spec2Isabelle
  imports Main "HOL-Library.Multiset" "HOL-Library.Sublist"
begin

section \<open>The WhatsApp realtime checker (browser JavaScript client)\<close>

text \<open>
  The development embeds the class \<^verbatim>\<open>WhatsAppRealtimeChecker\<close> and the helper
  \<^verbatim>\<open>validatePhoneNumber\<close> of
  \<^verbatim>\<open>examples/whatsapp_realtime_checker_javascript.js\<close> (the browser client, lines 1-345).
  The spec calls \<^verbatim>\<open>checkNumber\<close> the single lookup (\<open>checkOne\<close>),
  \<^verbatim>\<open>checkMultipleNumbers\<close> the batch runner (\<open>runBatch\<close>) and \<^verbatim>\<open>formatResult\<close> the
  formatter (\<open>format\<close>).

  Strings are \<open>string\<close>; a character outside ASCII is a \<open>char\<close> of code 128 or more,
  and what the platform does with such characters (the Unicode case mapping) is a
  parameter. A JavaScript value that may be \<^verbatim>\<open>undefined\<close> or
  \<^verbatim>\<open>null\<close> is an \<open>option\<close>. The JSON envelope of the service is typed as the README and
  the struct declarations of the Go and C# clients give it: an object whose fields are
  strings or absent. The default values of the parameters (\<^verbatim>\<open>callback = null\<close>,
  \<^verbatim>\<open>delay = 1000\<close>) are left to the caller, and the lines written to the console are not
  modelled.
\<close>

subsection \<open>Data model\<close>

text \<open>The object under \<^verbatim>\<open>message\<close> in the response envelope.\<close>

record message =
  msg_number :: "string option"
  msg_whatsapp :: "string option"

text \<open>The decoded response body: what \<^verbatim>\<open>response.json()\<close> resolves to.\<close>

record response =
  status :: "string option"
  message :: "message option"
  pricingStrategy :: "string option"
  transactionId :: "string option"

text \<open>
  One element of \<^verbatim>\<open>numbersData\<close>: \<^verbatim>\<open>{ number, country, callback }\<close>. The fields
  carry a prefix, the plain names being those of the parameters of \<^verbatim>\<open>checkNumber\<close>.
\<close>

record numberData =
  nd_number :: string
  nd_country :: string
  nd_callback :: "string option"

text \<open>
  The \<^verbatim>\<open>result\<close> field of a batch entry is either the decoded response or the object
  \<^verbatim>\<open>{ error: error.message }\<close>.
\<close>

datatype result_value = Response response | ErrorInfo string

record outcome =
  input :: numberData
  result :: result_value
  success :: bool

record statistics =
  total :: int
  successful :: int
  failed :: int
  whatsappYes :: int
  whatsappNo :: int

subsection \<open>validatePhoneNumber\<close>

text \<open>
  \<^verbatim>\<open>\D\<close> matches every character that is not one of the ten decimal digits 0-9. (A
  character outside ASCII is not a digit, in UTF-16 code units as in bytes.)
\<close>

definition is_digit :: "char \<Rightarrow> bool" where
  "is_digit c = (c \<in> set ''0123456789'')"

text \<open>\<^verbatim>\<open>number.replace(/\D/g, '')\<close>: every non-digit is replaced by the empty string.\<close>

primrec replace_non_digits :: "string \<Rightarrow> string" where
  "replace_non_digits [] = []"
| "replace_non_digits (c # cs) =
     (if is_digit c then c # replace_non_digits cs else replace_non_digits cs)"

definition validatePhoneNumber :: "string \<Rightarrow> string \<Rightarrow> bool" where
  "validatePhoneNumber number country =
     (let cleanNumber = replace_non_digits number
      in length cleanNumber \<ge> 8 \<and> length cleanNumber \<le> 15)"

subsection \<open>getStatistics\<close>

text \<open>
  \<^verbatim>\<open>r.result.message\<close>: the property is \<^verbatim>\<open>undefined\<close> on the object
  \<^verbatim>\<open>{ error: ... }\<close>.
\<close>

definition result_message :: "result_value \<Rightarrow> message option" where
  "result_message v = (case v of Response r \<Rightarrow> message r | ErrorInfo e \<Rightarrow> None)"

text \<open>
  \<^verbatim>\<open>r.success && r.result.message && r.result.message.whatsapp === w\<close>; an object is
  truthy, \<^verbatim>\<open>undefined\<close> is falsy.
\<close>

definition whatsapp_is :: "string \<Rightarrow> outcome \<Rightarrow> bool" where
  "whatsapp_is w r =
     (success r \<and>
      (case result_message (result r) of
         None \<Rightarrow> False
       | Some m \<Rightarrow> msg_whatsapp m = Some w))"

definition getStatistics :: "outcome list \<Rightarrow> statistics" where
  "getStatistics results =
     (let successful = int (length (filter success results));
          failed = int (length results) - successful;
          whatsappYes = int (length (filter (whatsapp_is ''yes'') results));
          whatsappNo = int (length (filter (whatsapp_is ''no'') results))
      in \<lparr>total = int (length results),
          successful = successful,
          failed = failed,
          whatsappYes = whatsappYes,
          whatsappNo = whatsappNo\<rparr>)"

text \<open>The \<^verbatim>\<open>whatsapp\<close> value an outcome carries, if any.\<close>

definition outcome_whatsapp :: "outcome \<Rightarrow> string option" where
  "outcome_whatsapp r =
     (case result r of
        ErrorInfo e \<Rightarrow> None
      | Response x \<Rightarrow> (case message x of None \<Rightarrow> None | Some m \<Rightarrow> msg_whatsapp m))"

text \<open>A successful outcome whose \<^verbatim>\<open>whatsapp\<close> value is missing or neither "yes" nor "no".\<close>

definition untallied :: "outcome \<Rightarrow> bool" where
  "untallied r =
     (success r \<and> outcome_whatsapp r \<noteq> Some ''yes'' \<and> outcome_whatsapp r \<noteq> Some ''no'')"

subsection \<open>The request\<close>

text \<open>
  \<^verbatim>\<open>country.toUpperCase()\<close>. On a string of ASCII characters the method maps each of the
  letters a-z to its capital and keeps every other character. On a string with a character
  outside ASCII (here a \<open>char\<close> of code 128 or more) it follows the Unicode case mapping,
  which also maps letters outside ASCII and can change the length (U+00DF becomes SS).
  That mapping is the platform's table and is the parameter \<open>unicode\<close>: the value of
  \<^verbatim>\<open>toUpperCase\<close> on such a string.
\<close>

definition is_ascii :: "char \<Rightarrow> bool" where
  "is_ascii c = (of_char c < (128 :: nat))"

text \<open>The capital of an ASCII character.\<close>

definition ascii_upper_char :: "char \<Rightarrow> char" where
  "ascii_upper_char c =
     (case map_of (zip ''abcdefghijklmnopqrstuvwxyz'' ''ABCDEFGHIJKLMNOPQRSTUVWXYZ'') c of
        None \<Rightarrow> c
      | Some u \<Rightarrow> u)"

definition toUpperCase :: "(string \<Rightarrow> string) \<Rightarrow> string \<Rightarrow> string" where
  "toUpperCase unicode s =
     (if list_all is_ascii s then map ascii_upper_char s else unicode s)"

text \<open>
  The \<^verbatim>\<open>URLSearchParams\<close> object is the list of its entries in the order they were
  appended. Its percent-encoded text (\<^verbatim>\<open>data.toString()\<close>) is the platform's and is not
  modelled: the body of a request is the list of entries.
\<close>

type_synonym params = "(string \<times> string) list"

text \<open>
  Lines 11-17 of \<^verbatim>\<open>checkNumber\<close>. \<^verbatim>\<open>if (callback)\<close>: \<^verbatim>\<open>null\<close> and the empty string
  are falsy, every other string is truthy.
\<close>

definition form_data ::
  "(string \<Rightarrow> string) \<Rightarrow> string \<Rightarrow> string \<Rightarrow> string option \<Rightarrow> params" where
  "form_data unicode number country callback =
     (let data = [];
          data = data @ [(''number'', number)];
          data = data @ [(''country'', toUpperCase unicode country)]
      in case callback of
           None \<Rightarrow> data
         | Some cb \<Rightarrow> if cb \<noteq> [] then data @ [(''callback'', cb)] else data)"

record checker =
  apiKey :: string
  baseUrl :: string

definition WhatsAppRealtimeChecker :: "string \<Rightarrow> checker" where
  "WhatsAppRealtimeChecker key =
     \<lparr>apiKey = key, baseUrl = ''https://api.checknumber.ai/v1/realtime/whatsapp''\<rparr>"

record http_request =
  url :: string
  http_method :: string
  headers :: "(string \<times> string) list"
  body :: params

subsection \<open>The network\<close>

text \<open>
  What a \<^verbatim>\<open>fetch\<close> promise settles to. A resolved \<^verbatim>\<open>Response\<close> object has its status
  code, the text of its body, and \<open>json\<close>: what \<^verbatim>\<open>response.json()\<close> settles to for that
  body, the decoded value or the message of the \<^verbatim>\<open>SyntaxError\<close> it rejects with. The
  client never reads \<open>body_text\<close>.
\<close>

record http_response =
  status_code :: nat
  body_text :: string
  json :: "string + response"

datatype fetch_result = Rejected string | Resolved http_response

text \<open>\<^verbatim>\<open>response.ok\<close> is true for the status codes 200 to 299.\<close>

definition ok :: "http_response \<Rightarrow> bool" where
  "ok resp = (200 \<le> status_code resp \<and> status_code resp \<le> 299)"

text \<open>
  The effects of the client that the outside can see, in the order they happen: the
  requests it sends and the pauses it makes (\<^verbatim>\<open>sleep(ms)\<close>). The remote service answers a
  request knowing everything that happened before it.
\<close>

datatype event = Fetch http_request | Sleep int

type_synonym network = "event list \<Rightarrow> http_request \<Rightarrow> fetch_result"

definition fetch :: "network \<Rightarrow> http_request \<Rightarrow> event list \<Rightarrow> fetch_result \<times> event list" where
  "fetch net req hist = (net hist req, hist @ [Fetch req])"

definition sleep :: "int \<Rightarrow> event list \<Rightarrow> event list" where
  "sleep ms hist = hist @ [Sleep ms]"

subsection \<open>checkNumber\<close>

text \<open>
  The three errors \<^verbatim>\<open>checkNumber\<close> can throw: the rejection of \<^verbatim>\<open>fetch\<close> (a network
  failure), \<^verbatim>\<open>new Error(`HTTP error! status: ${response.status}`)\<close>, and the rejection of
  \<^verbatim>\<open>response.json()\<close>. The first two are the spec's TransportError, the third its
  DecodeError.
\<close>

datatype lookup_error = NetworkError string | HttpError nat | DecodeError string

definition is_transport_error :: "lookup_error \<Rightarrow> bool" where
  "is_transport_error e = (case e of NetworkError m \<Rightarrow> True | HttpError n \<Rightarrow> True | DecodeError m \<Rightarrow> False)"

definition is_decode_error :: "lookup_error \<Rightarrow> bool" where
  "is_decode_error e = (case e of NetworkError m \<Rightarrow> False | HttpError n \<Rightarrow> False | DecodeError m \<Rightarrow> True)"

text \<open>A number in a template literal is rendered in decimal.\<close>

function decimal :: "nat \<Rightarrow> string" where
  "decimal n =
     (if n < 10 then [''0123456789'' ! n]
      else decimal (n div 10) @ [''0123456789'' ! (n mod 10)])"
  by pat_completeness auto
termination
  by (relation "measure (\<lambda>n. n)") auto

declare decimal.simps [simp del]

text \<open>\<^verbatim>\<open>error.message\<close>.\<close>

definition error_message :: "lookup_error \<Rightarrow> string" where
  "error_message e =
     (case e of
        NetworkError m \<Rightarrow> m
      | HttpError n \<Rightarrow> ''HTTP error! status: '' @ decimal n
      | DecodeError m \<Rightarrow> m)"

text \<open>The argument of \<^verbatim>\<open>fetch\<close>, lines 20-27.\<close>

definition fetch_request :: "checker \<Rightarrow> params \<Rightarrow> http_request" where
  "fetch_request self data =
     \<lparr>url = baseUrl self,
      http_method = ''POST'',
      headers = [(''Content-Type'', ''application/x-www-form-urlencoded''),
                 (''X-API-Key'', apiKey self)],
      body = data\<rparr>"

text \<open>
  \<^verbatim>\<open>checkNumber\<close> returns the thrown error (\<open>Inl\<close>) or the returned value (\<open>Inr\<close>), and the
  events so far. The \<^verbatim>\<open>catch\<close> block logs the error and throws it again unchanged.
\<close>

definition checkNumber ::
  "(string \<Rightarrow> string) \<Rightarrow> network \<Rightarrow> checker \<Rightarrow> string \<Rightarrow> string \<Rightarrow> string option \<Rightarrow> event list
     \<Rightarrow> (lookup_error + response) \<times> event list" where
  "checkNumber unicode net self number country callback hist =
     (let data = form_data unicode number country callback
      in case fetch net (fetch_request self data) hist of
           (Rejected msg, hist') \<Rightarrow> (Inl (NetworkError msg), hist')
         | (Resolved resp, hist') \<Rightarrow>
             if \<not> ok resp then (Inl (HttpError (status_code resp)), hist')
             else (case json resp of
                     Inl msg \<Rightarrow> (Inl (DecodeError msg), hist')
                   | Inr v \<Rightarrow> (Inr v, hist')))"

subsection \<open>checkMultipleNumbers\<close>

record batch_state =
  results :: "outcome list"
  history :: "event list"

text \<open>
  The body of the \<^verbatim>\<open>for\<close> loop at index \<open>i\<close>, lines 45-69. The pause is inside the
  \<^verbatim>\<open>try\<close> block, after the \<^verbatim>\<open>push\<close> of the successful entry; the \<^verbatim>\<open>catch\<close> block pushes
  the failed entry and does not pause.
\<close>

definition iteration ::
  "(string \<Rightarrow> string) \<Rightarrow> network \<Rightarrow> checker \<Rightarrow> numberData list \<Rightarrow> int \<Rightarrow> nat \<Rightarrow> batch_state \<Rightarrow> batch_state" where
  "iteration unicode net self numbersData delay i st =
     (let data = numbersData ! i
      in case checkNumber unicode net self (nd_number data) (nd_country data) (nd_callback data)
                (history st) of
           (Inr r, hist') \<Rightarrow>
             \<lparr>results = results st @ [\<lparr>input = data, result = Response r, success = True\<rparr>],
              history = (if delay > 0 \<and> int i < int (length numbersData) - 1
                         then sleep delay hist' else hist')\<rparr>
         | (Inl error, hist') \<Rightarrow>
             \<lparr>results = results st @
                 [\<lparr>input = data, result = ErrorInfo (error_message error), success = False\<rparr>],
              history = hist'\<rparr>)"

function loop ::
  "(string \<Rightarrow> string) \<Rightarrow> network \<Rightarrow> checker \<Rightarrow> numberData list \<Rightarrow> int \<Rightarrow> nat \<Rightarrow> batch_state \<Rightarrow> batch_state" where
  "loop unicode net self numbersData delay i st =
     (if i < length numbersData
      then loop unicode net self numbersData delay (i + 1) (iteration unicode net self numbersData delay i st)
      else st)"
  by pat_completeness auto
termination
  by (relation "measure (\<lambda>(unicode, net, self, numbersData, delay, i, st). length numbersData - i)") auto

declare loop.simps [simp del]

text \<open>
  \<^verbatim>\<open>checkMultipleNumbers(numbersData, delay)\<close>, started after the events \<open>hist\<close>: the
  \<^verbatim>\<open>results\<close> array it returns and the events at its end.
\<close>

definition checkMultipleNumbers ::
  "(string \<Rightarrow> string) \<Rightarrow> network \<Rightarrow> checker \<Rightarrow> numberData list \<Rightarrow> int \<Rightarrow> event list \<Rightarrow> batch_state" where
  "checkMultipleNumbers unicode net self numbersData delay hist =
     loop unicode net self numbersData delay 0 \<lparr>results = [], history = hist\<rparr>"

text \<open>The state of the loop on entering iteration \<open>k\<close>.\<close>

definition state_before ::
  "(string \<Rightarrow> string) \<Rightarrow> network \<Rightarrow> checker \<Rightarrow> numberData list \<Rightarrow> int \<Rightarrow> event list \<Rightarrow> nat \<Rightarrow> batch_state" where
  "state_before unicode net self numbersData delay hist k =
     fold (iteration unicode net self numbersData delay) [0..<k] \<lparr>results = [], history = hist\<rparr>"

text \<open>The requests among a list of events, in order.\<close>

primrec requests :: "event list \<Rightarrow> http_request list" where
  "requests [] = []"
| "requests (e # es) = (case e of Fetch r \<Rightarrow> r # requests es | Sleep ms \<Rightarrow> requests es)"

text \<open>The request that the lookup of one batch element sends.\<close>

definition request_of :: "(string \<Rightarrow> string) \<Rightarrow> checker \<Rightarrow> numberData \<Rightarrow> http_request" where
  "request_of unicode self data =
     fetch_request self (form_data unicode (nd_number data) (nd_country data) (nd_callback data))"

subsection \<open>formatResult\<close>

text \<open>
  \<^verbatim>\<open>x || d\<close> for a value \<open>x\<close> that is a string or \<^verbatim>\<open>undefined\<close>: \<^verbatim>\<open>undefined\<close> and the
  empty string are falsy.
\<close>

definition or_else :: "string option \<Rightarrow> string \<Rightarrow> string" where
  "or_else x d = (case x of None \<Rightarrow> d | Some s \<Rightarrow> if s = [] then d else s)"

text \<open>
  \<^verbatim>\<open>JSON.stringify\<close> is the platform's and is a parameter. \<^verbatim>\<open>result.message || {}\<close>: the
  empty object has neither field.
\<close>

definition formatResult :: "(response \<Rightarrow> string) \<Rightarrow> response \<Rightarrow> string" where
  "formatResult stringify r =
     (if status r = Some ''OK'' then
        (let message = (case message r of
                          None \<Rightarrow> \<lparr>msg_number = None, msg_whatsapp = None\<rparr>
                        | Some m \<Rightarrow> m);
             number = or_else (msg_number message) ''Unknown'';
             whatsappStatus = or_else (msg_whatsapp message) ''Unknown'';
             transactionId = or_else (transactionId r) ''N/A''
         in ''Number: '' @ number @ '', WhatsApp: '' @ whatsappStatus @
            '', Transaction ID: '' @ transactionId)
      else ''Status: '' @ or_else (status r) ''Unknown'' @ '', Error: '' @ stringify r)"

subsection \<open>Concrete data\<close>

text \<open>
  A scripted endpoint: the n-th request sent receives the n-th reply of the script, and the
  network is down once the script is used up.
\<close>

definition stub_endpoint :: "fetch_result list \<Rightarrow> network" where
  "stub_endpoint replies hist req =
     (let n = length (requests hist)
      in if n < length replies then replies ! n else Rejected ''Failed to fetch'')"

text \<open>
  A reply whose body decodes to \<open>v\<close> (its text is left empty: the client never reads it), and
  a reply whose body is the text \<open>txt\<close>, which is not JSON.
\<close>

definition reply_json :: "nat \<Rightarrow> response \<Rightarrow> fetch_result" where
  "reply_json code v = Resolved \<lparr>status_code = code, body_text = [], json = Inr v\<rparr>"

definition reply_text :: "nat \<Rightarrow> string \<Rightarrow> fetch_result" where
  "reply_text code txt =
     Resolved \<lparr>status_code = code, body_text = txt, json = Inl ''Unexpected token''\<rparr>"

definition envelope :: "string \<Rightarrow> string \<Rightarrow> string \<Rightarrow> response" where
  "envelope st num wa =
     \<lparr>status = Some st,
      message = Some \<lparr>msg_number = Some num, msg_whatsapp = Some wa\<rparr>,
      pricingStrategy = Some ''PAY'',
      transactionId = Some ''tphxc6te38gpcoyk8hkvwc''\<rparr>"

definition bare :: "string \<Rightarrow> response" where
  "bare st =
     \<lparr>status = Some st, message = None, pricingStrategy = None, transactionId = None\<rparr>"

definition item :: "string \<Rightarrow> string \<Rightarrow> numberData" where
  "item num ctry = \<lparr>nd_number = num, nd_country = ctry, nd_callback = None\<rparr>"

text \<open>
  A stand-in for the platform's Unicode case mapping in the concrete runs below: their
  country codes are ASCII, so it is never consulted.
\<close>

definition unicode_stub :: "string \<Rightarrow> string" where
  "unicode_stub s = s"

definition demo_checker :: checker where
  "demo_checker = WhatsAppRealtimeChecker ''YOUR_API_KEY''"

definition demo_batch :: "numberData list" where
  "demo_batch =
     [item ''628138800001'' ''id'', item ''5511999999999'' ''BR'', item ''5215555555555'' ''MX'']"

definition demo_replies :: "fetch_result list" where
  "demo_replies =
     [reply_json 200 (envelope ''OK'' ''+628138800001'' ''yes''),
      reply_text 500 ''Internal Server Error'',
      reply_json 200 (envelope ''OK'' ''+5215555555555'' ''no'')]"

definition demo_outcomes :: "outcome list" where
  "demo_outcomes =
     [\<lparr>input = item ''628138800001'' ''ID'',
       result = Response (envelope ''OK'' ''+628138800001'' ''yes''), success = True\<rparr>,
      \<lparr>input = item ''5511999999999'' ''BR'',
       result = ErrorInfo ''HTTP error! status: 500'', success = False\<rparr>,
      \<lparr>input = item ''5215555555555'' ''MX'',
       result = Response (envelope ''OK'' ''+5215555555555'' ''no''), success = True\<rparr>,
      \<lparr>input = item ''919876543210'' ''IN'',
       result = Response (bare ''OK''), success = True\<rparr>,
      \<lparr>input = item ''2348012345678'' ''NG'',
       result = Response (envelope ''OK'' ''+2348012345678'' ''maybe''), success = True\<rparr>]"

text \<open>The four values of \<^verbatim>\<open>status\<close> that the service documents.\<close>

definition valid_status :: "string option \<Rightarrow> bool" where
  "valid_status s =
     (s \<in> set [Some ''OK'', Some ''FAIL'', Some ''INVALID_INPUT'', Some ''RETRY_LATER''])"

text \<open>The JSON object \<^verbatim>\<open>{}\<close>.\<close>

definition empty_object :: response where
  "empty_object =
     \<lparr>status = None, message = None, pricingStrategy = None, transactionId = None\<rparr>"

section \<open>Properties\<close>

subsection \<open>Phone number validation\<close>

lemma replace_non_digits_filter: "replace_non_digits s = filter is_digit s"
  by (induction s) simp_all

text \<open>
  Claim C10. \<^verbatim>\<open>validatePhoneNumber\<close> ignores its country argument: for every number and
  any two countries the result is the same, and it is true exactly when the number of
  decimal-digit characters of the number is between 8 and 15 inclusive.
\<close>

theorem validatePhoneNumber_digit_count:
  "validatePhoneNumber number country1 = validatePhoneNumber number country2 \<and>
   (validatePhoneNumber number country1 \<longleftrightarrow>
      8 \<le> length (filter is_digit number) \<and> length (filter is_digit number) \<le> 15)"
  by (simp add: validatePhoneNumber_def replace_non_digits_filter Let_def)

theorem validatePhoneNumber_digit_count_witness:
  "validatePhoneNumber ''+62 813-8800-001'' ''ID'' = validatePhoneNumber ''+62 813-8800-001'' ''zz'' \<and>
   validatePhoneNumber ''+62 813-8800-001'' ''ID'' \<and>
   length (filter is_digit ''+62 813-8800-001'') = 12 \<and>
   \<not> validatePhoneNumber ''12-34-567'' ''ID''"
proof -
  have twelve: "length (filter is_digit ''+62 813-8800-001'') = 12"
    by (simp add: is_digit_def)
  have seven: "length (filter is_digit ''12-34-567'') = 7"
    by (simp add: is_digit_def)
  show ?thesis
    using validatePhoneNumber_digit_count [of "''+62 813-8800-001''" "''ID''" "''zz''"]
      validatePhoneNumber_digit_count [of "''12-34-567''" "''ID''" "''ID''"]
    by (simp only: twelve seven) auto
qed

subsection \<open>Statistics\<close>

lemma whatsapp_is_outcome:
  "whatsapp_is w r \<longleftrightarrow> success r \<and> outcome_whatsapp r = Some w"
  by (simp add: whatsapp_is_def outcome_whatsapp_def result_message_def
      split: result_value.splits option.splits)

lemma successful_partition:
  "length (filter success rs) =
     length (filter (whatsapp_is ''yes'') rs) + length (filter (whatsapp_is ''no'') rs)
       + length (filter untallied rs)"
  by (induction rs) (auto simp: whatsapp_is_outcome untallied_def)

text \<open>
  Claim C3. For every list of outcomes: \<open>total\<close> is the length of the list,
  \<open>successful + failed = total\<close>, \<open>whatsappYes + whatsappNo \<le> successful\<close>,
  \<open>whatsappYes\<close> (\<open>whatsappNo\<close>) counts exactly the successful outcomes whose whatsapp field
  is "yes" ("no"), and a successful outcome with a missing or unexpected whatsapp value is
  counted in neither tally: the successful outcomes are the two tallies plus those.
\<close>

theorem getStatistics_tallies:
  "total (getStatistics rs) = int (length rs) \<and>
   successful (getStatistics rs) + failed (getStatistics rs) = total (getStatistics rs) \<and>
   whatsappYes (getStatistics rs) + whatsappNo (getStatistics rs) \<le> successful (getStatistics rs) \<and>
   whatsappYes (getStatistics rs) =
     int (length (filter (\<lambda>r. success r \<and> outcome_whatsapp r = Some ''yes'') rs)) \<and>
   whatsappNo (getStatistics rs) =
     int (length (filter (\<lambda>r. success r \<and> outcome_whatsapp r = Some ''no'') rs)) \<and>
   successful (getStatistics rs) =
     whatsappYes (getStatistics rs) + whatsappNo (getStatistics rs)
       + int (length (filter untallied rs))"
proof -
  have eq: "whatsapp_is w = (\<lambda>r. success r \<and> outcome_whatsapp r = Some w)" for w
    by (rule ext) (simp add: whatsapp_is_outcome)
  show ?thesis
    using successful_partition [of rs]
    by (simp add: getStatistics_def Let_def eq)
qed

theorem getStatistics_tallies_witness:
  "total (getStatistics demo_outcomes) = 5 \<and>
   successful (getStatistics demo_outcomes) = 4 \<and>
   failed (getStatistics demo_outcomes) = 1 \<and>
   whatsappYes (getStatistics demo_outcomes) = 1 \<and>
   whatsappNo (getStatistics demo_outcomes) = 1 \<and>
   length (filter untallied demo_outcomes) = 2"
proof -
  have yes: "length (filter (\<lambda>r. success r \<and> outcome_whatsapp r = Some ''yes'') demo_outcomes) = 1"
    by code_simp
  have no: "length (filter (\<lambda>r. success r \<and> outcome_whatsapp r = Some ''no'') demo_outcomes) = 1"
    by code_simp
  have rest: "length (filter untallied demo_outcomes) = 2"
    by code_simp
  have len: "length demo_outcomes = 5"
    by (simp add: demo_outcomes_def)
  show ?thesis
    using getStatistics_tallies [of demo_outcomes]
    by (simp add: yes no rest len)
qed

lemma length_filter_mset: "length (filter P xs) = size (filter_mset P (mset xs))"
  by (metis mset_filter size_mset)

text \<open>
  Claim C9. \<^verbatim>\<open>getStatistics\<close> is permutation-invariant: two lists with the same outcomes
  in any order have equal statistics.
\<close>

theorem getStatistics_permutation:
  assumes "mset rs = mset rs'"
  shows "getStatistics rs = getStatistics rs'"
proof -
  have len: "length rs = length rs'"
    using assms by (rule mset_eq_length)
  have "length (filter P rs) = length (filter P rs')" for P
    using assms by (simp add: length_filter_mset)
  with len show ?thesis
    by (simp add: getStatistics_def)
qed

theorem getStatistics_permutation_witness:
  "mset (rev demo_outcomes) = mset demo_outcomes \<and>
   rev demo_outcomes \<noteq> demo_outcomes \<and>
   getStatistics (rev demo_outcomes) = getStatistics demo_outcomes"
proof -
  have perm: "mset (rev demo_outcomes) = mset demo_outcomes"
    by simp
  have differ: "rev demo_outcomes \<noteq> demo_outcomes"
    by code_simp
  show ?thesis
    using perm differ getStatistics_permutation [OF perm] by simp
qed

subsection \<open>The batch loop\<close>

lemma loop_fold:
  "i \<le> length nd \<Longrightarrow> loop unicode net self nd delay i st = fold (iteration unicode net self nd delay) [i..<length nd] st"
proof (induction unicode net self nd delay i st rule: loop.induct)
  case (1 unicode net self nd delay i st)
  show ?case
  proof (cases "i < length nd")
    case True
    then have "[i..<length nd] = i # [i + 1..<length nd]"
      by (simp add: upt_conv_Cons)
    with True "1.IH" show ?thesis
      by (subst loop.simps) simp
  next
    case False
    with "1.prems" show ?thesis
      by (subst loop.simps) simp
  qed
qed

lemma checkNumber_history:
  "snd (checkNumber unicode net self number country callback hist) =
     hist @ [Fetch (fetch_request self (form_data unicode number country callback))]"
  by (simp add: checkNumber_def fetch_def Let_def split: fetch_result.splits sum.splits)

lemma requests_append: "requests (xs @ ys) = requests xs @ requests ys"
  by (induction xs) (simp_all split: event.splits)

lemma checkNumber_pair:
  "checkNumber unicode net self number country callback hist =
     (fst (checkNumber unicode net self number country callback hist),
      hist @ [Fetch (fetch_request self (form_data unicode number country callback))])"
  using checkNumber_history [of unicode net self number country callback hist]
  by (simp add: prod_eq_iff)

lemma iteration_success:
  assumes "fst (checkNumber unicode net self (nd_number (nd ! i)) (nd_country (nd ! i))
             (nd_callback (nd ! i)) (history st)) = Inr r"
  shows "iteration unicode net self nd delay i st =
     \<lparr>results = results st @ [\<lparr>input = nd ! i, result = Response r, success = True\<rparr>],
      history = history st @ [Fetch (request_of unicode self (nd ! i))] @
        (if delay > 0 \<and> int i < int (length nd) - 1 then [Sleep delay] else [])\<rparr>"
  unfolding iteration_def Let_def
  by (subst checkNumber_pair) (simp add: assms request_of_def sleep_def)

lemma iteration_failure:
  assumes "fst (checkNumber unicode net self (nd_number (nd ! i)) (nd_country (nd ! i))
             (nd_callback (nd ! i)) (history st)) = Inl e"
  shows "iteration unicode net self nd delay i st =
     \<lparr>results = results st @
        [\<lparr>input = nd ! i, result = ErrorInfo (error_message e), success = False\<rparr>],
      history = history st @ [Fetch (request_of unicode self (nd ! i))]\<rparr>"
  unfolding iteration_def Let_def
  by (subst checkNumber_pair) (simp add: assms request_of_def)

lemma iteration_inputs:
  "map input (results (iteration unicode net self nd delay i st)) =
     map input (results st) @ [nd ! i]"
proof (cases "fst (checkNumber unicode net self (nd_number (nd ! i)) (nd_country (nd ! i))
             (nd_callback (nd ! i)) (history st))")
  case (Inl e)
  then show ?thesis by (simp add: iteration_failure)
next
  case (Inr r)
  then show ?thesis by (simp add: iteration_success)
qed

lemma iteration_requests:
  "requests (history (iteration unicode net self nd delay i st)) =
     requests (history st) @ [request_of unicode self (nd ! i)]"
proof (cases "fst (checkNumber unicode net self (nd_number (nd ! i)) (nd_country (nd ! i))
             (nd_callback (nd ! i)) (history st))")
  case (Inl e)
  then show ?thesis by (simp add: iteration_failure requests_append)
next
  case (Inr r)
  then show ?thesis by (simp add: iteration_success requests_append)
qed

lemma fold_inputs:
  "j \<le> length nd \<Longrightarrow>
   map input (results (fold (iteration unicode net self nd delay) [i..<j] st)) =
     map input (results st) @ drop i (take j nd)"
proof (induction j)
  case 0
  then show ?case by simp
next
  case (Suc j)
  show ?case
  proof (cases "i \<le> j")
    case True
    have "drop i (take (Suc j) nd) = drop i (take j nd) @ [nd ! j]"
      using Suc.prems True by (simp add: take_Suc_conv_app_nth)
    then show ?thesis using Suc True by (simp add: iteration_inputs)
  next
    case False
    then show ?thesis by simp
  qed
qed

lemma fold_requests:
  "j \<le> length nd \<Longrightarrow>
   requests (history (fold (iteration unicode net self nd delay) [i..<j] st)) =
     requests (history st) @ map (request_of unicode self) (drop i (take j nd))"
proof (induction j)
  case 0
  then show ?case by simp
next
  case (Suc j)
  show ?case
  proof (cases "i \<le> j")
    case True
    have "drop i (take (Suc j) nd) = drop i (take j nd) @ [nd ! j]"
      using Suc.prems True by (simp add: take_Suc_conv_app_nth)
    then show ?thesis using Suc True by (simp add: iteration_requests)
  next
    case False
    then show ?thesis by simp
  qed
qed


lemma iteration_prefix:
  "prefix (results st) (results (iteration unicode net self nd delay i st))"
proof (cases "fst (checkNumber unicode net self (nd_number (nd ! i)) (nd_country (nd ! i))
             (nd_callback (nd ! i)) (history st))")
  case (Inl e)
  then show ?thesis by (simp add: iteration_failure)
next
  case (Inr r)
  then show ?thesis by (simp add: iteration_success)
qed

lemma fold_prefix:
  "prefix (results st) (results (fold (iteration unicode net self nd delay) is st))"
proof (induction "is" arbitrary: st)
  case Nil
  then show ?case by simp
next
  case (Cons i "is")
  have "prefix (results st) (results (iteration unicode net self nd delay i st))"
    by (rule iteration_prefix)
  also have "prefix \<dots> (results (fold (iteration unicode net self nd delay) is (iteration unicode net self nd delay i st)))"
    by (rule Cons.IH)
  finally show ?case by simp
qed

lemma prefix_nth: "prefix xs ys \<Longrightarrow> k < length xs \<Longrightarrow> ys ! k = xs ! k"
  by (auto simp: prefix_def nth_append)

lemma checkMultipleNumbers_fold:
  "checkMultipleNumbers unicode net self nd delay hist =
     fold (iteration unicode net self nd delay) [0..<length nd] \<lparr>results = [], history = hist\<rparr>"
  by (simp add: checkMultipleNumbers_def loop_fold)

lemma checkMultipleNumbers_inputs:
  "map input (results (checkMultipleNumbers unicode net self nd delay hist)) = nd"
  by (simp add: checkMultipleNumbers_fold fold_inputs)

lemma checkMultipleNumbers_requests:
  "requests (history (checkMultipleNumbers unicode net self nd delay hist)) =
     requests hist @ map (request_of unicode self) nd"
  by (simp add: checkMultipleNumbers_fold fold_requests)

text \<open>
  Claim C1. For every list of N requests, \<^verbatim>\<open>checkMultipleNumbers\<close> returns exactly N
  outcomes, the i-th outcome carries the i-th request as its input, and the requests are
  sent one after the other in the order of the list.
\<close>

theorem checkMultipleNumbers_order:
  "length (results (checkMultipleNumbers unicode net self nd delay hist)) = length nd \<and>
   map input (results (checkMultipleNumbers unicode net self nd delay hist)) = nd \<and>
   (\<forall>i < length nd. input (results (checkMultipleNumbers unicode net self nd delay hist) ! i) = nd ! i) \<and>
   requests (history (checkMultipleNumbers unicode net self nd delay hist)) =
     requests hist @ map (request_of unicode self) nd"
proof -
  let ?rs = "results (checkMultipleNumbers unicode net self nd delay hist)"
  have inputs: "map input ?rs = nd"
    by (rule checkMultipleNumbers_inputs)
  then have len: "length ?rs = length nd"
    by (metis length_map)
  have "input (?rs ! i) = nd ! i" if "i < length nd" for i
    using that inputs len by (metis nth_map)
  with inputs len checkMultipleNumbers_requests show ?thesis
    by blast
qed

lemma state_before_length:
  "k \<le> length nd \<Longrightarrow> length (results (state_before unicode net self nd delay hist k)) = k"
proof -
  assume k: "k \<le> length nd"
  have "map input (results (state_before unicode net self nd delay hist k)) = take k nd"
    using k by (simp add: state_before_def fold_inputs)
  then have "length (results (state_before unicode net self nd delay hist k)) = length (take k nd)"
    by (metis length_map)
  with k show ?thesis by simp
qed

lemma checkMultipleNumbers_split:
  assumes "k < length nd"
  shows "checkMultipleNumbers unicode net self nd delay hist =
     loop unicode net self nd delay (Suc k)
       (iteration unicode net self nd delay k (state_before unicode net self nd delay hist k))"
proof -
  have "[0..<k + (length nd - k)] = [0..<k] @ [k..<k + (length nd - k)]"
    by (rule upt_add_eq_append) simp
  then have "[0..<length nd] = [0..<k] @ k # [Suc k..<length nd]"
    using assms by (simp add: upt_conv_Cons)
  then show ?thesis
    using assms by (simp add: checkMultipleNumbers_fold state_before_def loop_fold)
qed

theorem checkMultipleNumbers_order_witness:
  "length (results (checkMultipleNumbers unicode_stub (stub_endpoint demo_replies) demo_checker demo_batch 1000 [])) = 3 \<and>
   map input (results (checkMultipleNumbers unicode_stub (stub_endpoint demo_replies) demo_checker demo_batch 1000 []))
     = demo_batch \<and>
   requests (history (checkMultipleNumbers unicode_stub (stub_endpoint demo_replies) demo_checker demo_batch 1000 []))
     = map (request_of unicode_stub demo_checker) demo_batch"
  using checkMultipleNumbers_order [of unicode_stub "stub_endpoint demo_replies" demo_checker demo_batch 1000 "[]"]
  by (simp add: demo_batch_def)

text \<open>
  Claim C2. If the lookup of the item at position \<open>k\<close> fails with the error \<open>e\<close>, the
  outcome at position \<open>k\<close> records the message of \<open>e\<close> as a string with
  \<open>success = false\<close>, every item of the list is still attempted (one request per item,
  in order), there are outcomes for all items, and the loop goes on at index \<open>k + 1\<close>
  from the state with that outcome pushed.
\<close>

theorem checkMultipleNumbers_isolates_failure:
  assumes k: "k < length nd"
    and fails: "fst (checkNumber unicode net self (nd_number (nd ! k)) (nd_country (nd ! k))
              (nd_callback (nd ! k)) (history (state_before unicode net self nd delay hist k))) = Inl e"
  shows "results (checkMultipleNumbers unicode net self nd delay hist) ! k =
           \<lparr>input = nd ! k, result = ErrorInfo (error_message e), success = False\<rparr> \<and>
         length (results (checkMultipleNumbers unicode net self nd delay hist)) = length nd \<and>
         requests (history (checkMultipleNumbers unicode net self nd delay hist)) =
           requests hist @ map (request_of unicode self) nd \<and>
         checkMultipleNumbers unicode net self nd delay hist =
           loop unicode net self nd delay (Suc k)
             \<lparr>results = results (state_before unicode net self nd delay hist k) @
                [\<lparr>input = nd ! k, result = ErrorInfo (error_message e), success = False\<rparr>],
              history = history (state_before unicode net self nd delay hist k) @
                [Fetch (request_of unicode self (nd ! k))]\<rparr>"
proof -
  let ?sk = "state_before unicode net self nd delay hist k"
  let ?failed = "\<lparr>input = nd ! k, result = ErrorInfo (error_message e), success = False\<rparr>"
  let ?next = "\<lparr>results = results ?sk @ [?failed],
                history = history ?sk @ [Fetch (request_of unicode self (nd ! k))]\<rparr>"
  have step: "iteration unicode net self nd delay k ?sk = ?next"
    using fails by (rule iteration_failure)
  have final: "checkMultipleNumbers unicode net self nd delay hist = loop unicode net self nd delay (Suc k) ?next"
    using checkMultipleNumbers_split [OF k] step by simp
  have len_k: "length (results ?sk) = k"
    using k by (simp add: state_before_length)
  have "prefix (results ?next)
          (results (fold (iteration unicode net self nd delay) [Suc k..<length nd] ?next))"
    by (rule fold_prefix)
  then have "prefix (results ?next) (results (checkMultipleNumbers unicode net self nd delay hist))"
    using k final by (simp add: loop_fold)
  moreover have "k < length (results ?next)"
    using len_k by simp
  ultimately have "results (checkMultipleNumbers unicode net self nd delay hist) ! k = results ?next ! k"
    by (rule prefix_nth)
  also have "\<dots> = ?failed"
    using len_k by (simp add: nth_append)
  finally have at_k: "results (checkMultipleNumbers unicode net self nd delay hist) ! k = ?failed" .
  have len: "length (results (checkMultipleNumbers unicode net self nd delay hist)) = length nd"
    by (metis checkMultipleNumbers_inputs length_map)
  from at_k len checkMultipleNumbers_requests final show ?thesis
    by blast
qed

theorem checkMultipleNumbers_isolates_failure_witness:
  "results (checkMultipleNumbers unicode_stub (stub_endpoint demo_replies) demo_checker demo_batch 1000 []) ! 1 =
     \<lparr>input = item ''5511999999999'' ''BR'',
      result = ErrorInfo ''HTTP error! status: 500'', success = False\<rparr> \<and>
   length (results (checkMultipleNumbers unicode_stub (stub_endpoint demo_replies) demo_checker demo_batch 1000 [])) = 3 \<and>
   requests (history (checkMultipleNumbers unicode_stub (stub_endpoint demo_replies) demo_checker demo_batch 1000 []))
     = map (request_of unicode_stub demo_checker) demo_batch"
proof -
  have k: "1 < length demo_batch"
    by (simp add: demo_batch_def)
  have fails: "fst (checkNumber unicode_stub (stub_endpoint demo_replies) demo_checker (nd_number (demo_batch ! 1))
       (nd_country (demo_batch ! 1)) (nd_callback (demo_batch ! 1))
       (history (state_before unicode_stub (stub_endpoint demo_replies) demo_checker demo_batch 1000 [] 1)))
     = Inl (HttpError 500)"
    by code_simp
  have msg: "error_message (HttpError 500) = ''HTTP error! status: 500''"
    by code_simp
  have at: "demo_batch ! Suc 0 = item ''5511999999999'' ''BR''" and len: "length demo_batch = 3"
    by (simp_all add: demo_batch_def)
  note all = checkMultipleNumbers_isolates_failure [OF k fails]
  show ?thesis
    using all [THEN conjunct1] all [THEN conjunct2, THEN conjunct1]
      all [THEN conjunct2, THEN conjunct2, THEN conjunct1]
    by (simp add: msg at len)
qed

text \<open>
  Claim C7. With a positive delay the pause is to come after each of the calls 1..n-1,
  whether the call succeeded or failed, and never after the last. The run below has three
  items and a delay of 1000 ms; the second lookup fails with HTTP 500. The client pauses
  after the first call and sends the third request right after the failed second one.
\<close>

theorem checkMultipleNumbers_no_pause_after_failure:
  "history (checkMultipleNumbers unicode_stub (stub_endpoint demo_replies) demo_checker demo_batch 1000 []) =
     [Fetch (request_of unicode_stub demo_checker (demo_batch ! 0)),
      Sleep 1000,
      Fetch (request_of unicode_stub demo_checker (demo_batch ! 1)),
      Fetch (request_of unicode_stub demo_checker (demo_batch ! 2))]"
  by code_simp

subsection \<open>The single lookup\<close>

lemma checkNumber_result:
  "fst (checkNumber unicode net self number country callback hist) =
     (case net hist (fetch_request self (form_data unicode number country callback)) of
        Rejected msg \<Rightarrow> Inl (NetworkError msg)
      | Resolved resp \<Rightarrow>
          if \<not> ok resp then Inl (HttpError (status_code resp))
          else (case json resp of Inl msg \<Rightarrow> Inl (DecodeError msg) | Inr v \<Rightarrow> Inr v))"
  by (simp add: checkNumber_def fetch_def Let_def split: fetch_result.splits sum.splits)

text \<open>
  Claim C4, as the code has it. For every input, \<^verbatim>\<open>checkNumber\<close> either fails with a
  TransportError (the network failed, or the status is not 2xx) or a DecodeError, or it
  returns exactly the value decoded from the body of a 2xx reply. That value is not
  inspected: its status is one of the four documented values only if the service sent one.
\<close>

theorem checkNumber_outcomes:
  "(\<exists>e. fst (checkNumber unicode net self number country callback hist) = Inl e \<and>
        (is_transport_error e \<or> is_decode_error e)) \<or>
   (\<exists>resp v. net hist (fetch_request self (form_data unicode number country callback)) = Resolved resp \<and>
        200 \<le> status_code resp \<and> status_code resp \<le> 299 \<and> json resp = Inr v \<and>
        fst (checkNumber unicode net self number country callback hist) = Inr v)"
proof (cases "net hist (fetch_request self (form_data unicode number country callback))")
  case (Rejected msg)
  then show ?thesis
    by (simp add: checkNumber_result is_transport_error_def)
next
  case (Resolved resp)
  show ?thesis
  proof (cases "ok resp")
    case False
    with Resolved show ?thesis
      by (simp add: checkNumber_result is_transport_error_def)
  next
    case True
    show ?thesis
    proof (cases "json resp")
      case (Inl msg)
      with Resolved True show ?thesis
        by (simp add: checkNumber_result is_decode_error_def)
    next
      case (Inr v)
      with Resolved True show ?thesis
        by (simp add: checkNumber_result ok_def)
    qed
  qed
qed

theorem checkNumber_outcomes_witness:
  "fst (checkNumber unicode_stub (stub_endpoint demo_replies) demo_checker ''628138800001'' ''id'' None []) =
     Inr (envelope ''OK'' ''+628138800001'' ''yes'') \<and>
   valid_status (status (envelope ''OK'' ''+628138800001'' ''yes'')) \<and>
   fst (checkNumber unicode_stub (stub_endpoint []) demo_checker ''628138800001'' ''id'' None []) =
     Inl (NetworkError ''Failed to fetch'') \<and>
   is_transport_error (NetworkError ''Failed to fetch'')"
proof -
  have ok_run: "fst (checkNumber unicode_stub (stub_endpoint demo_replies) demo_checker ''628138800001'' ''id'' None []) =
     Inr (envelope ''OK'' ''+628138800001'' ''yes'')"
    by code_simp
  have down: "fst (checkNumber unicode_stub (stub_endpoint []) demo_checker ''628138800001'' ''id'' None []) =
     Inl (NetworkError ''Failed to fetch'')"
    by code_simp
  have valid: "valid_status (status (envelope ''OK'' ''+628138800001'' ''yes''))"
    by code_simp
  show ?thesis
    using checkNumber_outcomes [of unicode_stub "stub_endpoint demo_replies" demo_checker
        "''628138800001''" "''id''" None "[]"] ok_run down valid
    by (simp add: is_transport_error_def)
qed

text \<open>
  The status is not validated: a 2xx reply whose body decodes to an object with the status
  "BOGUS", or to the empty object, is returned as it is.
\<close>

theorem checkNumber_unvalidated_status:
  "fst (checkNumber unicode_stub (stub_endpoint [reply_json 200 (bare ''BOGUS'')]) demo_checker
         ''628138800001'' ''ID'' None []) = Inr (bare ''BOGUS'') \<and>
   \<not> valid_status (status (bare ''BOGUS'')) \<and>
   fst (checkNumber unicode_stub (stub_endpoint [reply_json 200 empty_object]) demo_checker
         ''628138800001'' ''ID'' None []) = Inr empty_object \<and>
   \<not> valid_status (status empty_object)"
  by code_simp

text \<open>
  Claim C5. For a reply whose status is not in the 2xx range, the error is to carry the
  status code and the raw body of the reply. The browser client throws
  \<^verbatim>\<open>new Error(`HTTP error! status: ${response.status}`)\<close> and never reads the body: two
  replies with status 500 and different bodies give the same error, whose message names
  the status only.
\<close>

theorem checkNumber_error_without_body:
  "fst (checkNumber unicode_stub (stub_endpoint [reply_text 500 ''Internal Server Error'']) demo_checker
         ''628138800001'' ''ID'' None []) = Inl (HttpError 500) \<and>
   fst (checkNumber unicode_stub (stub_endpoint [reply_text 500 ''upstream unavailable'']) demo_checker
         ''628138800001'' ''ID'' None []) = Inl (HttpError 500) \<and>
   error_message (HttpError 500) = ''HTTP error! status: 500''"
  by code_simp

subsection \<open>The request\<close>

lemma ascii_upper_char_letter:
  assumes "k < 26"
  shows "ascii_upper_char (''abcdefghijklmnopqrstuvwxyz'' ! k) = ''ABCDEFGHIJKLMNOPQRSTUVWXYZ'' ! k"
proof -
  have "length ''abcdefghijklmnopqrstuvwxyz'' = length ''ABCDEFGHIJKLMNOPQRSTUVWXYZ''"
    by simp
  moreover have "distinct ''abcdefghijklmnopqrstuvwxyz''"
    by simp
  moreover have "k < length ''ABCDEFGHIJKLMNOPQRSTUVWXYZ''"
    using assms by simp
  ultimately have
    "map_of (zip ''abcdefghijklmnopqrstuvwxyz'' ''ABCDEFGHIJKLMNOPQRSTUVWXYZ'')
       (''abcdefghijklmnopqrstuvwxyz'' ! k) = Some (''ABCDEFGHIJKLMNOPQRSTUVWXYZ'' ! k)"
    by (rule map_of_zip_nth)
  then show ?thesis
    by (simp only: ascii_upper_char_def option.case)
qed

lemma ascii_upper_char_other:
  assumes "c \<notin> set ''abcdefghijklmnopqrstuvwxyz''"
  shows "ascii_upper_char c = c"
proof -
  have "c \<notin> fst ` set (zip ''abcdefghijklmnopqrstuvwxyz'' ''ABCDEFGHIJKLMNOPQRSTUVWXYZ'')"
    using assms by simp
  then have "map_of (zip ''abcdefghijklmnopqrstuvwxyz'' ''ABCDEFGHIJKLMNOPQRSTUVWXYZ'') c = None"
    by (rule iffD2 [OF map_of_eq_None_iff])
  then show ?thesis
    by (simp only: ascii_upper_char_def option.case)
qed

lemma ascii_upper_char_capital:
  assumes "map_of (zip ''abcdefghijklmnopqrstuvwxyz'' ''ABCDEFGHIJKLMNOPQRSTUVWXYZ'') c = Some u"
  shows "u \<in> set ''ABCDEFGHIJKLMNOPQRSTUVWXYZ''"
proof -
  have "(c, u) \<in> set (zip ''abcdefghijklmnopqrstuvwxyz'' ''ABCDEFGHIJKLMNOPQRSTUVWXYZ'')"
    using assms by (rule map_of_SomeD)
  then show ?thesis
    by (rule set_zip_rightD)
qed

lemma ascii_upper_char_not_lower: "ascii_upper_char c \<notin> set ''abcdefghijklmnopqrstuvwxyz''"
proof (cases "map_of (zip ''abcdefghijklmnopqrstuvwxyz'' ''ABCDEFGHIJKLMNOPQRSTUVWXYZ'') c")
  case None
  then have "c \<notin> fst ` set (zip ''abcdefghijklmnopqrstuvwxyz'' ''ABCDEFGHIJKLMNOPQRSTUVWXYZ'')"
    by (rule iffD1 [OF map_of_eq_None_iff])
  then have "c \<notin> set ''abcdefghijklmnopqrstuvwxyz''"
    by simp
  with None show ?thesis
    by (simp add: ascii_upper_char_def)
next
  case (Some u)
  then have "u \<in> set ''ABCDEFGHIJKLMNOPQRSTUVWXYZ''"
    by (rule ascii_upper_char_capital)
  then have "u \<notin> set ''abcdefghijklmnopqrstuvwxyz''"
    by auto
  with Some show ?thesis
    by (simp add: ascii_upper_char_def)
qed

lemma ascii_upper_char_ascii:
  assumes "is_ascii c"
  shows "is_ascii (ascii_upper_char c)"
proof (cases "map_of (zip ''abcdefghijklmnopqrstuvwxyz'' ''ABCDEFGHIJKLMNOPQRSTUVWXYZ'') c")
  case None
  with assms show ?thesis
    by (simp add: ascii_upper_char_def)
next
  case (Some u)
  then have "u \<in> set ''ABCDEFGHIJKLMNOPQRSTUVWXYZ''"
    by (rule ascii_upper_char_capital)
  then have "is_ascii u"
    by (auto simp: is_ascii_def)
  with Some show ?thesis
    by (simp add: ascii_upper_char_def)
qed

lemma ascii_upper_char_idem: "ascii_upper_char (ascii_upper_char c) = ascii_upper_char c"
  using ascii_upper_char_not_lower by (rule ascii_upper_char_other)

lemma toUpperCase_ascii:
  "list_all is_ascii s \<Longrightarrow> toUpperCase unicode s = map ascii_upper_char s"
  by (simp add: toUpperCase_def)

lemma toUpperCase_stays_ascii:
  assumes "list_all is_ascii s"
  shows "list_all is_ascii (toUpperCase unicode s)"
  using assms by (simp add: toUpperCase_ascii list_all_iff ascii_upper_char_ascii)

lemma toUpperCase_letters:
  assumes ascii: "list_all is_ascii s"
  shows "length (toUpperCase unicode s) = length s \<and>
    (\<forall>i<length s.
       (\<forall>k<26. s ! i = ''abcdefghijklmnopqrstuvwxyz'' ! k \<longrightarrow>
          toUpperCase unicode s ! i = ''ABCDEFGHIJKLMNOPQRSTUVWXYZ'' ! k) \<and>
       (s ! i \<notin> set ''abcdefghijklmnopqrstuvwxyz'' \<longrightarrow> toUpperCase unicode s ! i = s ! i)) \<and>
    set (toUpperCase unicode s) \<inter> set ''abcdefghijklmnopqrstuvwxyz'' = {} \<and>
    toUpperCase unicode (toUpperCase unicode s) = toUpperCase unicode s"
proof -
  have eq: "toUpperCase unicode s = map ascii_upper_char s"
    using ascii by (rule toUpperCase_ascii)
  have len: "length (toUpperCase unicode s) = length s"
    by (simp add: eq)
  have pointwise: "(\<forall>k<26. s ! i = ''abcdefghijklmnopqrstuvwxyz'' ! k \<longrightarrow>
          toUpperCase unicode s ! i = ''ABCDEFGHIJKLMNOPQRSTUVWXYZ'' ! k) \<and>
       (s ! i \<notin> set ''abcdefghijklmnopqrstuvwxyz'' \<longrightarrow> toUpperCase unicode s ! i = s ! i)"
    if "i < length s" for i
  proof -
    have at: "toUpperCase unicode s ! i = ascii_upper_char (s ! i)"
      using that by (simp add: eq)
    show ?thesis
      unfolding at
      using ascii_upper_char_letter ascii_upper_char_other by metis
  qed
  have "x \<notin> set ''abcdefghijklmnopqrstuvwxyz''" if "x \<in> set (toUpperCase unicode s)" for x
  proof -
    from that obtain c where "x = ascii_upper_char c"
      unfolding eq by (auto simp del: set_simps)
    then show ?thesis
      by (simp only: ascii_upper_char_not_lower not_False_eq_True)
  qed
  then have none: "set (toUpperCase unicode s) \<inter> set ''abcdefghijklmnopqrstuvwxyz'' = {}"
    by blast
  have "toUpperCase unicode (toUpperCase unicode s) = map ascii_upper_char (toUpperCase unicode s)"
    using toUpperCase_stays_ascii [OF ascii] by (rule toUpperCase_ascii)
  then have idem: "toUpperCase unicode (toUpperCase unicode s) = toUpperCase unicode s"
    by (simp add: eq ascii_upper_char_idem)
  from len pointwise none idem show ?thesis
    by blast
qed

lemma form_data_entries:
  "form_data unicode number country callback =
     [(''number'', number), (''country'', toUpperCase unicode country)] @
       (case callback of None \<Rightarrow> [] | Some cb \<Rightarrow> if cb \<noteq> [] then [(''callback'', cb)] else [])"
  by (simp add: form_data_def split: option.splits)

text \<open>
  Claim C8. The request that \<^verbatim>\<open>checkNumber\<close> sends has the number field as given and the
  country field upper-cased: it is \<^verbatim>\<open>country.toUpperCase()\<close>, which on an ASCII country
  has the capital wherever the input has one of the small letters a-z and every other
  character (a capital too) as it was, and which on any other country is the platform's
  Unicode mapping of it.
  The request has a callback field if and only if a non-empty callback was supplied, in
  which case the field is that callback.
\<close>

theorem checkNumber_payload:
  "snd (checkNumber unicode net self number country callback hist) =
     hist @ [Fetch (fetch_request self (form_data unicode number country callback))] \<and>
   body (fetch_request self (form_data unicode number country callback)) =
     form_data unicode number country callback \<and>
   map_of (form_data unicode number country callback) ''number'' = Some number \<and>
   map_of (form_data unicode number country callback) ''country'' =
     Some (toUpperCase unicode country) \<and>
   (list_all is_ascii country \<longrightarrow>
      length (toUpperCase unicode country) = length country \<and>
      (\<forall>i<length country.
         (\<forall>k<26. country ! i = ''abcdefghijklmnopqrstuvwxyz'' ! k \<longrightarrow>
            toUpperCase unicode country ! i = ''ABCDEFGHIJKLMNOPQRSTUVWXYZ'' ! k) \<and>
         (country ! i \<notin> set ''abcdefghijklmnopqrstuvwxyz'' \<longrightarrow>
            toUpperCase unicode country ! i = country ! i)) \<and>
      set (toUpperCase unicode country) \<inter> set ''abcdefghijklmnopqrstuvwxyz'' = {} \<and>
      toUpperCase unicode (toUpperCase unicode country) = toUpperCase unicode country) \<and>
   (\<not> list_all is_ascii country \<longrightarrow> toUpperCase unicode country = unicode country) \<and>
   (''callback'' \<in> fst ` set (form_data unicode number country callback)
      \<longleftrightarrow> (\<exists>cb. callback = Some cb \<and> cb \<noteq> [])) \<and>
   (\<forall>cb. callback = Some cb \<and> cb \<noteq> [] \<longrightarrow>
      map_of (form_data unicode number country callback) ''callback'' = Some cb) \<and>
   map fst (form_data unicode number country callback) =
     (if callback = None \<or> callback = Some [] then [''number'', ''country'']
      else [''number'', ''country'', ''callback''])"
proof -
  have sent: "snd (checkNumber unicode net self number country callback hist) =
     hist @ [Fetch (fetch_request self (form_data unicode number country callback))]"
    by (rule checkNumber_history)
  have body: "body (fetch_request self (form_data unicode number country callback)) =
     form_data unicode number country callback"
    by (simp add: fetch_request_def)
  have fields: "map_of (form_data unicode number country callback) ''number'' = Some number"
    "map_of (form_data unicode number country callback) ''country'' =
       Some (toUpperCase unicode country)"
    by (simp_all add: form_data_entries)
  have ascii: "list_all is_ascii country \<longrightarrow>
      length (toUpperCase unicode country) = length country \<and>
      (\<forall>i<length country.
         (\<forall>k<26. country ! i = ''abcdefghijklmnopqrstuvwxyz'' ! k \<longrightarrow>
            toUpperCase unicode country ! i = ''ABCDEFGHIJKLMNOPQRSTUVWXYZ'' ! k) \<and>
         (country ! i \<notin> set ''abcdefghijklmnopqrstuvwxyz'' \<longrightarrow>
            toUpperCase unicode country ! i = country ! i)) \<and>
      set (toUpperCase unicode country) \<inter> set ''abcdefghijklmnopqrstuvwxyz'' = {} \<and>
      toUpperCase unicode (toUpperCase unicode country) = toUpperCase unicode country"
    using toUpperCase_letters [of country unicode] by blast
  have other: "\<not> list_all is_ascii country \<longrightarrow> toUpperCase unicode country = unicode country"
    by (simp add: toUpperCase_def)
  have present: "''callback'' \<in> fst ` set (form_data unicode number country callback)
      \<longleftrightarrow> (\<exists>cb. callback = Some cb \<and> cb \<noteq> [])"
    by (cases callback) (auto simp add: form_data_entries)
  have its_value: "\<forall>cb. callback = Some cb \<and> cb \<noteq> [] \<longrightarrow>
      map_of (form_data unicode number country callback) ''callback'' = Some cb"
    by (simp add: form_data_entries)
  have names: "map fst (form_data unicode number country callback) =
     (if callback = None \<or> callback = Some [] then [''number'', ''country'']
      else [''number'', ''country'', ''callback''])"
    by (cases callback) (simp_all add: form_data_entries)
  from sent body fields ascii other present its_value names show ?thesis
    by (intro conjI)
qed

theorem checkNumber_payload_witness:
  "form_data unicode_stub ''628138800001'' ''id'' None =
     [(''number'', ''628138800001''), (''country'', ''ID'')] \<and>
   form_data unicode_stub ''5511999999999'' ''br'' (Some []) =
     [(''number'', ''5511999999999''), (''country'', ''BR'')] \<and>
   form_data unicode_stub ''5215555555555'' ''Mx'' (Some ''https://example.com/hook'') =
     [(''number'', ''5215555555555''), (''country'', ''MX''),
      (''callback'', ''https://example.com/hook'')] \<and>
   list_all is_ascii ''Mx'' \<and>
   length (toUpperCase unicode_stub ''Mx'') = 2 \<and>
   toUpperCase unicode_stub ''Mx'' ! 1 = CHR ''X'' \<and>
   toUpperCase unicode_stub ''Mx'' ! 0 = CHR ''M'' \<and>
   map_of (form_data unicode_stub ''5215555555555'' ''Mx'' (Some ''https://example.com/hook''))
     ''callback'' = Some ''https://example.com/hook''"
proof -
  have a: "form_data unicode_stub ''628138800001'' ''id'' None =
     [(''number'', ''628138800001''), (''country'', ''ID'')]"
    by code_simp
  have b: "form_data unicode_stub ''5511999999999'' ''br'' (Some []) =
     [(''number'', ''5511999999999''), (''country'', ''BR'')]"
    by code_simp
  have c: "form_data unicode_stub ''5215555555555'' ''Mx'' (Some ''https://example.com/hook'') =
     [(''number'', ''5215555555555''), (''country'', ''MX''),
      (''callback'', ''https://example.com/hook'')]"
    by code_simp
  have ascii: "list_all is_ascii ''Mx''"
    by code_simp
  have x: "''Mx'' ! 1 = ''abcdefghijklmnopqrstuvwxyz'' ! 23" "(23 :: nat) < 26"
    "''ABCDEFGHIJKLMNOPQRSTUVWXYZ'' ! 23 = CHR ''X''" "(1 :: nat) < length ''Mx''"
    by simp_all
  have m: "''Mx'' ! 0 \<notin> set ''abcdefghijklmnopqrstuvwxyz''" "''Mx'' ! 0 = CHR ''M''"
    "(0 :: nat) < length ''Mx''"
    by simp_all
  note all = checkNumber_payload [of unicode_stub "stub_endpoint []" demo_checker
      "''5215555555555''" "''Mx''" "Some ''https://example.com/hook''" "[]"]
  have upper: "length (toUpperCase unicode_stub ''Mx'') = 2"
    "toUpperCase unicode_stub ''Mx'' ! 1 = CHR ''X''"
    "toUpperCase unicode_stub ''Mx'' ! 0 = CHR ''M''"
    using all ascii x m by (simp, metis, metis)
  have cb: "map_of (form_data unicode_stub ''5215555555555'' ''Mx''
      (Some ''https://example.com/hook'')) ''callback'' = Some ''https://example.com/hook''"
    using all by blast
  from a b c ascii upper cb show ?thesis
    by (intro conjI)
qed

subsection \<open>Formatting\<close>

text \<open>
  Claim C6. \<^verbatim>\<open>formatResult\<close> is total on responses. When the status is "OK" it renders
  the number, the whatsapp value and the transaction id, with "Unknown", "Unknown" and "N/A"
  in place of a missing one; so a response with status "OK" and no message renders
  "Unknown" twice. For every other status it renders the status and the serialized
  response.
\<close>

theorem formatResult_cases:
  "(status r = Some ''OK'' \<longrightarrow>
      formatResult stringify r =
        ''Number: '' @
          or_else (case message r of None \<Rightarrow> None | Some m \<Rightarrow> msg_number m) ''Unknown'' @
        '', WhatsApp: '' @
          or_else (case message r of None \<Rightarrow> None | Some m \<Rightarrow> msg_whatsapp m) ''Unknown'' @
        '', Transaction ID: '' @ or_else (transactionId r) ''N/A'') \<and>
   (status r \<noteq> Some ''OK'' \<longrightarrow>
      formatResult stringify r =
        ''Status: '' @ or_else (status r) ''Unknown'' @ '', Error: '' @ stringify r) \<and>
   (status r = Some ''OK'' \<and> message r = None \<longrightarrow>
      formatResult stringify r =
        ''Number: Unknown, WhatsApp: Unknown, Transaction ID: '' @
          or_else (transactionId r) ''N/A'') \<and>
   (status r = Some ''OK'' \<and> message r = None \<and> transactionId r = None \<longrightarrow>
      formatResult stringify r = ''Number: Unknown, WhatsApp: Unknown, Transaction ID: N/A'') \<and>
   or_else None d = d \<and>
   (s \<noteq> [] \<longrightarrow> or_else (Some s) d = s)"
  by (simp add: formatResult_def or_else_def Let_def split: option.splits)

theorem formatResult_cases_witness:
  "formatResult (\<lambda>r. []) (envelope ''OK'' ''+628138800001'' ''yes'') =
     ''Number: +628138800001, WhatsApp: yes, Transaction ID: tphxc6te38gpcoyk8hkvwc'' \<and>
   formatResult (\<lambda>r. []) (bare ''OK'') =
     ''Number: Unknown, WhatsApp: Unknown, Transaction ID: N/A'' \<and>
   formatResult (\<lambda>r. ''{}'') empty_object = ''Status: Unknown, Error: {}''"
proof -
  have st: "status (envelope ''OK'' ''+628138800001'' ''yes'') = Some ''OK''"
    "status (bare ''OK'') = Some ''OK''" "message (bare ''OK'') = None"
    "transactionId (bare ''OK'') = None" "status empty_object \<noteq> Some ''OK''"
    by (simp_all add: envelope_def bare_def empty_object_def)
  have fields: "or_else (case message (envelope ''OK'' ''+628138800001'' ''yes'') of
                   None \<Rightarrow> None | Some m \<Rightarrow> msg_number m) ''Unknown'' = ''+628138800001''"
    "or_else (case message (envelope ''OK'' ''+628138800001'' ''yes'') of
                   None \<Rightarrow> None | Some m \<Rightarrow> msg_whatsapp m) ''Unknown'' = ''yes''"
    "or_else (transactionId (envelope ''OK'' ''+628138800001'' ''yes'')) ''N/A'' =
       ''tphxc6te38gpcoyk8hkvwc''"
    "or_else (status empty_object) ''Unknown'' = ''Unknown''"
    by (simp_all add: envelope_def empty_object_def or_else_def)
  show ?thesis
    using formatResult_cases [of "envelope ''OK'' ''+628138800001'' ''yes''" "\<lambda>r. []"]
      formatResult_cases [of "bare ''OK''" "\<lambda>r. []"]
      formatResult_cases [of empty_object "\<lambda>r. ''{}''"]
    by (simp add: st fields)
qed

end
